theory Spec2Isabelle
  imports Main "HOL-Library.Sublist"
begin

section \<open>Errors\<close>

text \<open>
  Every exception the services throw is a value. The five HTTP exceptions are the
  NestJS classes the source imports, each carrying its message. \<open>QueryFailedError\<close>
  is the storage driver's own error (PostgreSQL error code, and the detail or message
  line): it is what a repository call rejects with when a constraint is violated or a
  value cannot be read, and it is not an HTTP exception. \<open>JsError\<close> is a plain \<open>Error\<close> thrown by a library.
\<close>

datatype error =
    NotFoundException string
  | BadRequestException string
  | UnauthorizedException string
  | ForbiddenException string
  | InternalServerErrorException string
  | QueryFailedError string string
  | JsError string

section \<open>Entities\<close>

text \<open>
  Modelled from the spec: the \<open>User\<close> entity declaration (users/entities/user.entity.ts)
  is not among the sources. Its fields are the ones the services read and write
  (\<open>id\<close>, \<open>fullName\<close>, \<open>email\<close>, \<open>password\<close>, \<open>roles\<close>, \<open>isActive\<close>,
  \<open>lastUpdatedBy\<close>) and the spec's data model lists. \<open>password\<close> is optional because
  \<open>validateUser\<close> deletes the property from the object it returns; a stored row always
  has it. \<open>lastUpdatedBy\<close> is the self-referential relation, held as the identifier of
  the referenced user (the foreign key the relation is persisted as).
\<close>

record User =
  id_user :: string
  fullName :: string
  email :: string
  password :: "string option"
  roles_user :: "string list"
  isActive :: bool
  lastUpdatedBy :: "string option"

text \<open>
  \<open>Item\<close> (items/entities/item.entity.ts) and \<open>List\<close> (lists/entities/list.entity.ts).
  The many-to-one relation \<open>user\<close> is the column \<open>userId\<close> the queries filter on.
\<close>

record Item =
  id_item :: string
  name_item :: string
  quantityUnits :: "string option"
  userId_item :: string

record List =
  id_list :: string
  name_list :: string
  userId_list :: string

section \<open>Ownership-scoped lookup\<close>

text \<open>
  The identifier columns are of PostgreSQL's type \<open>uuid\<close>, and an identifier given to a
  query is text that the storage layer first reads as a \<open>uuid\<close>. It accepts sixteen
  pairs of hexadecimal digits, in either case, with an optional hyphen after any pair
  of odd index but the last, and optionally the whole between braces. What it stores
  and compares is the value read, written in lower case with hyphens after the digits
  8, 12, 16 and 20. Any other text is rejected with code 22P02.
\<close>

definition isxdigit :: "char \<Rightarrow> bool" where
  "isxdigit c = (c \<in> set ''0123456789abcdefABCDEF'')"

definition tolower_xdigit :: "char \<Rightarrow> char" where
  "tolower_xdigit c =
     (if c = CHR ''A'' then CHR ''a'' else if c = CHR ''B'' then CHR ''b''
      else if c = CHR ''C'' then CHR ''c'' else if c = CHR ''D'' then CHR ''d''
      else if c = CHR ''E'' then CHR ''e'' else if c = CHR ''F'' then CHR ''f'' else c)"

text \<open>
  \<open>uuid_bytes k src\<close> reads the last \<open>k\<close> of the sixteen bytes: the byte of index
  \<open>16 - k\<close> and those after it. It yields the digits read, in lower case, and the text
  left over.
\<close>

fun uuid_bytes :: "nat \<Rightarrow> string \<Rightarrow> (string \<times> string) option" where
  "uuid_bytes 0 src = Some ([], src)"
| "uuid_bytes (Suc n) [] = None"
| "uuid_bytes (Suc n) [a] = None"
| "uuid_bytes (Suc n) (a # b # rest) =
     (if isxdigit a \<and> isxdigit b
      then (case uuid_bytes n
                   (case rest of
                      [] \<Rightarrow> rest
                    | d # t \<Rightarrow> if d = CHR ''-'' \<and> (15 - n) mod 2 = 1 \<and> 15 - n < 15
                               then t else rest) of
              None \<Rightarrow> None
            | Some (digits, left) \<Rightarrow> Some (tolower_xdigit a # tolower_xdigit b # digits, left))
      else None)"

definition uuid_out :: "string \<Rightarrow> string" where
  "uuid_out digits =
     take 8 digits @ ''-'' @ take 4 (drop 8 digits) @ ''-'' @ take 4 (drop 12 digits) @ ''-'' @
     take 4 (drop 16 digits) @ ''-'' @ drop 20 digits"

definition uuid_in :: "string \<Rightarrow> string option" where
  "uuid_in source =
     (case source of
        [] \<Rightarrow> None
      | c # t \<Rightarrow>
          if c = CHR ''{''
          then (case uuid_bytes 16 t of
                  None \<Rightarrow> None
                | Some (digits, left) \<Rightarrow> if left = ''}'' then Some (uuid_out digits) else None)
          else (case uuid_bytes 16 source of
                  None \<Rightarrow> None
                | Some (digits, left) \<Rightarrow> if left = [] then Some (uuid_out digits) else None))"

definition invalid_uuid :: "string \<Rightarrow> error" where
  "invalid_uuid source =
     QueryFailedError ''22P02''
       (''invalid input syntax for type uuid: '' @ [CHR 0x22] @ source @ [CHR 0x22])"

text \<open>
  A table is the list of its rows. \<open>Repository.findOneBy\<close> with the condition
  \<open>{ id, user: { id: user.id } }\<close> rejects when \<open>id\<close> is not the text of a \<open>uuid\<close>, and
  otherwise yields the first row with that identifier and that owner, or null. The
  owner's identifier is that of a stored user, the value the storage layer gave it.
  \<open>findOne\<close> catches nothing.
\<close>

definition findOneBy_item :: "Item list \<Rightarrow> string \<Rightarrow> string \<Rightarrow> error + Item option" where
  "findOneBy_item tbl i uid =
     (case uuid_in i of
        None \<Rightarrow> Inl (invalid_uuid i)
      | Some c \<Rightarrow> Inr (find (\<lambda>r. id_item r = c \<and> userId_item r = uid) tbl))"

definition findOneBy_list :: "List list \<Rightarrow> string \<Rightarrow> string \<Rightarrow> error + List option" where
  "findOneBy_list tbl i uid =
     (case uuid_in i of
        None \<Rightarrow> Inl (invalid_uuid i)
      | Some c \<Rightarrow> Inr (find (\<lambda>r. id_list r = c \<and> userId_list r = uid) tbl))"

definition ItemsService_findOne :: "Item list \<Rightarrow> string \<Rightarrow> User \<Rightarrow> error + Item" where
  "ItemsService_findOne tbl i user =
     (case findOneBy_item tbl i (id_user user) of
        Inl e \<Rightarrow> Inl e
      | Inr None \<Rightarrow> Inl (NotFoundException (''Item with id: '' @ i @ '' not found''))
      | Inr (Some item) \<Rightarrow> Inr item)"

definition ListsService_findOne :: "List list \<Rightarrow> string \<Rightarrow> User \<Rightarrow> error + List" where
  "ListsService_findOne tbl i user =
     (case findOneBy_list tbl i (id_user user) of
        Inl e \<Rightarrow> Inl e
      | Inr None \<Rightarrow> Inl (NotFoundException (''List with id: '' @ i @ '' not found''))
      | Inr (Some l) \<Rightarrow> Inr l)"

section \<open>Role gate\<close>






section \<open>Users service\<close>

text \<open>
  The users service is the revision of users/users.service.ts with the paginated
  \<open>findAll\<close>; \<open>create\<close>, \<open>update\<close>, \<open>findOneById\<close>, \<open>findOneByEmail\<close>,
  \<open>block\<close> and \<open>handleDBErrors\<close> read the same in the revision before it.
\<close>

text \<open>
  Modelled from the spec: the input declarations \<open>SignUpInput\<close>, \<open>LoginInput\<close> and
  \<open>UpdateUserInput\<close> are not among the sources. Sign-up and login carry the fields the
  services read; the update input carries the identifier the resolver reads and, each
  optionally, the fields of a user the spec says a user or an admin can change.
\<close>

record SignUpInput =
  email_signup :: string
  fullName_signup :: string
  password_signup :: string

record LoginInput =
  email_login :: string
  password_login :: string

record UpdateUserInput =
  id_updateUser :: string
  email_updateUser :: "string option"
  fullName_updateUser :: "string option"
  password_updateUser :: "string option"
  roles_updateUser :: "string list option"
  isActive_updateUser :: "bool option"

text \<open>
  \<open>String.prototype.replace\<close> with a string pattern replaces the first occurrence.
\<close>

fun replace_first :: "string \<Rightarrow> string \<Rightarrow> string \<Rightarrow> string" where
  "replace_first pat rep [] = (if pat = [] then rep else [])"
| "replace_first pat rep (c # cs) =
     (if take (length pat) (c # cs) = pat then rep @ drop (length pat) (c # cs)
      else c # replace_first pat rep cs)"

text \<open>
  \<open>handleDBErrors\<close> always throws; the model returns the exception it throws. Only the
  driver's error has a \<open>code\<close> property.
\<close>

fun handleDBErrors :: "error \<Rightarrow> error" where
  "handleDBErrors (QueryFailedError code detail) =
     (if code = ''23505'' then BadRequestException (replace_first ''Key'' [] detail)
      else InternalServerErrorException ''Please check server logs'')"
| "handleDBErrors e = InternalServerErrorException ''Please check server logs''"

text \<open>
  Modelled from the spec: the unique constraint on \<open>email\<close> is declared in the entity,
  which is not among the sources; the spec's data model states it and \<open>handleDBErrors\<close>
  handles its violation (PostgreSQL code 23505). This is \<open>Repository.save\<close> on the
  users table: an entity whose identifier is stored is written over the row with that
  identifier, any other entity is inserted.
\<close>

definition save_user :: "User list \<Rightarrow> User \<Rightarrow> error + User list" where
  "save_user tbl u =
     (if \<exists>row \<in> set tbl. id_user row \<noteq> id_user u \<and> email row = email u
      then Inl (QueryFailedError ''23505'' (''Key (email)=('' @ email u @ '') already exists.''))
      else if \<exists>row \<in> set tbl. id_user row = id_user u
      then Inr (map (\<lambda>row. if id_user row = id_user u then u else row) tbl)
      else Inr (tbl @ [u]))"

text \<open>
  Modelled from the spec: the column defaults of a new user (role \<open>user\<close>, active, no
  last updater) come from the entity declaration, which is not among the sources.
  In \<open>create\<close> the identifier is generated by the storage layer and the hash by
  bcrypt; both are parameters.
\<close>

definition UsersService_create ::
  "(string \<Rightarrow> nat \<Rightarrow> string) \<Rightarrow> string \<Rightarrow> User list \<Rightarrow> SignUpInput \<Rightarrow> error + User list \<times> User" where
  "UsersService_create hashSync newId tbl signUpInput =
     (let newUser = \<lparr>id_user = newId, fullName = fullName_signup signUpInput,
                      email = email_signup signUpInput,
                      password = Some (hashSync (password_signup signUpInput) 10),
                      roles_user = [''user''], isActive = True, lastUpdatedBy = None\<rparr>
      in case save_user tbl newUser of
           Inl e \<Rightarrow> Inl (handleDBErrors e)
         | Inr tbl' \<Rightarrow> Inr (tbl', newUser))"

definition UsersService_findOneById :: "User list \<Rightarrow> string \<Rightarrow> error + User" where
  "UsersService_findOneById tbl i =
     (case find (\<lambda>u. id_user u = i) tbl of
        None \<Rightarrow> Inl (NotFoundException (i @ '' not found''))
      | Some u \<Rightarrow> Inr u)"

definition UsersService_findOneByEmail :: "User list \<Rightarrow> string \<Rightarrow> error + User" where
  "UsersService_findOneByEmail tbl e =
     (case find (\<lambda>u. email u = e) tbl of
        None \<Rightarrow> Inl (NotFoundException (e @ '' not found''))
      | Some u \<Rightarrow> Inr u)"

text \<open>
  \<open>Repository.preload({ ...updateUserInput, id })\<close>: the row with identifier \<open>id\<close>
  (the spread's \<open>id\<close> is overridden), with every property present in the input written
  over it; undefined when there is no such row.
\<close>

definition merge_user :: "UpdateUserInput \<Rightarrow> User \<Rightarrow> User" where
  "merge_user inp u =
     u\<lparr>email := (case email_updateUser inp of None \<Rightarrow> email u | Some v \<Rightarrow> v),
       fullName := (case fullName_updateUser inp of None \<Rightarrow> fullName u | Some v \<Rightarrow> v),
       password := (case password_updateUser inp of None \<Rightarrow> password u | Some v \<Rightarrow> Some v),
       roles_user := (case roles_updateUser inp of None \<Rightarrow> roles_user u | Some v \<Rightarrow> v),
       isActive := (case isActive_updateUser inp of None \<Rightarrow> isActive u | Some v \<Rightarrow> v)\<rparr>"

definition preload_user :: "User list \<Rightarrow> UpdateUserInput \<Rightarrow> string \<Rightarrow> User option" where
  "preload_user tbl inp i = map_option (merge_user inp) (find (\<lambda>u. id_user u = i) tbl)"

text \<open>
  \<open>update\<close>: the whole body is inside \<open>try\<close>, so the NotFound exception it throws
  itself also passes through \<open>handleDBErrors\<close>.
\<close>

definition UsersService_update ::
  "User list \<Rightarrow> string \<Rightarrow> UpdateUserInput \<Rightarrow> User \<Rightarrow> error + User list \<times> User" where
  "UsersService_update tbl i updateUserInput updatedBy =
     (case preload_user tbl updateUserInput i of
        None \<Rightarrow> Inl (handleDBErrors (NotFoundException (''Item with id: '' @ i @ '' not found'')))
      | Some usr \<Rightarrow>
          (let usr' = usr\<lparr>lastUpdatedBy := Some (id_user updatedBy)\<rparr> in
           case save_user tbl usr' of
             Inl e \<Rightarrow> Inl (handleDBErrors e)
           | Inr tbl' \<Rightarrow> Inr (tbl', usr')))"

definition UsersService_block :: "User list \<Rightarrow> string \<Rightarrow> User \<Rightarrow> error + User list \<times> User" where
  "UsersService_block tbl i adminUser =
     (case UsersService_findOneById tbl i of
        Inl e \<Rightarrow> Inl e
      | Inr userToBlock \<Rightarrow>
          (let blocked = userToBlock\<lparr>isActive := False, lastUpdatedBy := Some (id_user adminUser)\<rparr> in
           case save_user tbl blocked of
             Inl e \<Rightarrow> Inl e
           | Inr tbl' \<Rightarrow> Inr (tbl', blocked)))"

section \<open>Auth service\<close>

record AuthResponse =
  token :: string
  user_auth :: User

record JwtPayload =
  id_jwt :: string
  iat :: nat
  exp :: nat

text \<open>
  The signing primitive \<open>jwtService.sign\<close> and bcrypt's \<open>compareSync\<close> are parameters.
  \<open>compareSync\<close> throws a plain error when the hash is missing.
\<close>

definition getJwtToken :: "(string \<Rightarrow> string) \<Rightarrow> string \<Rightarrow> string" where
  "getJwtToken sign userId = sign userId"

definition AuthService_signup ::
  "(string \<Rightarrow> nat \<Rightarrow> string) \<Rightarrow> (string \<Rightarrow> string) \<Rightarrow> string \<Rightarrow> User list \<Rightarrow> SignUpInput
     \<Rightarrow> error + User list \<times> AuthResponse" where
  "AuthService_signup hashSync sign newId tbl signupInput =
     (case UsersService_create hashSync newId tbl signupInput of
        Inl e \<Rightarrow> Inl e
      | Inr (tbl', usr) \<Rightarrow> Inr (tbl', \<lparr>token = getJwtToken sign (id_user usr), user_auth = usr\<rparr>))"

definition AuthService_login ::
  "(string \<Rightarrow> string \<Rightarrow> bool) \<Rightarrow> (string \<Rightarrow> string) \<Rightarrow> User list \<Rightarrow> LoginInput
     \<Rightarrow> error + AuthResponse" where
  "AuthService_login compareSync sign tbl loginInput =
     (case UsersService_findOneByEmail tbl (email_login loginInput) of
        Inl e \<Rightarrow> Inl e
      | Inr usr \<Rightarrow>
          (case password usr of
             None \<Rightarrow> Inl (JsError ''data and hash arguments required'')
           | Some hash \<Rightarrow>
               if \<not> compareSync (password_login loginInput) hash
               then Inl (BadRequestException ''Email / Password do not match'')
               else Inr \<lparr>token = getJwtToken sign (id_user usr), user_auth = usr\<rparr>))"

definition AuthService_validateUser :: "User list \<Rightarrow> string \<Rightarrow> error + User" where
  "AuthService_validateUser tbl i =
     (case UsersService_findOneById tbl i of
        Inl e \<Rightarrow> Inl e
      | Inr usr \<Rightarrow>
          if \<not> isActive usr
          then Inl (UnauthorizedException ''User is inactive, talk with an admin'')
          else Inr (usr\<lparr>password := None\<rparr>))"

definition AuthService_revalidateToken :: "(string \<Rightarrow> string) \<Rightarrow> User \<Rightarrow> AuthResponse" where
  "AuthService_revalidateToken sign usr = \<lparr>token = getJwtToken sign (id_user usr), user_auth = usr\<rparr>"

text \<open>
  \<open>JwtStrategy.validate\<close> receives the payload of a token whose signature and expiry the
  passport strategy has already accepted, and resolves it to the user.
\<close>

definition JwtStrategy_validate :: "User list \<Rightarrow> JwtPayload \<Rightarrow> error + User" where
  "JwtStrategy_validate tbl payload = AuthService_validateUser tbl (id_jwt payload)"

section \<open>List item service\<close>

text \<open>
  \<open>ListItem\<close> (list-item/entities/list-item.entity.ts). The relations \<open>list\<close> and
  \<open>item\<close> are the columns \<open>listId\<close> and \<open>itemId\<close>; the entity declares the pair
  unique. Nothing below computes on \<open>quantity\<close>; it is held as an integer. The inputs are
  list-item/dto/inputs: every field of the update input but \<open>id\<close> is optional.
\<close>

record ListItem =
  id_listItem :: string
  quantity :: int
  completed :: bool
  listId :: string
  itemId :: string

record CreateListItemInput =
  quantity_createListItem :: int
  completed_createListItem :: bool
  listId_createListItem :: string
  itemId_createListItem :: string

record UpdateListItemInput =
  id_updateListItem :: string
  quantity_updateListItem :: "int option"
  completed_updateListItem :: "bool option"
  listId_updateListItem :: "string option"
  itemId_updateListItem :: "string option"

text \<open>
  A repository call returns a promise. A promise is an object, and every object is
  truthy, whatever the promise resolves to; \<open>await\<close>, or returning the promise from an
  async function, yields the value it resolves to.
\<close>

datatype 'a Promise = Promise 'a

fun truthy_Promise :: "'a Promise \<Rightarrow> bool" where
  "truthy_Promise (Promise v) = True"

fun await :: "'a Promise \<Rightarrow> 'a" where
  "await (Promise v) = v"

definition findOneBy_listItem :: "ListItem list \<Rightarrow> string \<Rightarrow> ListItem option Promise" where
  "findOneBy_listItem tbl i = Promise (find (\<lambda>r. id_listItem r = i) tbl)"

text \<open>
  \<open>findOne\<close> tests the promise \<open>findOneBy\<close> returned, not the row: there is no
  \<open>await\<close> before the test. The async function then resolves to what the promise
  resolves to, a row or null.
\<close>

definition ListItemService_findOne :: "ListItem list \<Rightarrow> string \<Rightarrow> error + ListItem option" where
  "ListItemService_findOne tbl i =
     (let listItem = findOneBy_listItem tbl i in
      if \<not> truthy_Promise listItem
      then Inl (NotFoundException (''List item with ID '' @ i @ '' not found''))
      else Inr (await listItem))"

text \<open>
  The storage layer's constraints on the table: the primary key and the unique pair
  (\<open>listId\<close>, \<open>itemId\<close>). A violating insert or update is rejected with PostgreSQL's
  code 23505 and changes nothing. The referenced list and item are taken to be stored:
  the foreign keys are not part of the model.
\<close>

definition pair_listItem :: "ListItem \<Rightarrow> string \<times> string" where
  "pair_listItem r = (listId r, itemId r)"

definition insert_listItem :: "ListItem list \<Rightarrow> ListItem \<Rightarrow> error + ListItem list" where
  "insert_listItem tbl e =
     (if \<exists>r \<in> set tbl. id_listItem r = id_listItem e
      then Inl (QueryFailedError ''23505'' (''Key (id)=('' @ id_listItem e @ '') already exists.''))
      else if \<exists>r \<in> set tbl. pair_listItem r = pair_listItem e
      then Inl (QueryFailedError ''23505''
             (''Key (listId, itemId)=('' @ listId e @ '', '' @ itemId e @ '') already exists.''))
      else Inr (tbl @ [e]))"

text \<open>
  \<open>create\<close>: the identifier is generated by the storage layer and taken as a parameter.
  Nothing catches what \<open>save\<close> rejects with. The result is the table afterwards and
  what the call resolves to or rejects with.
\<close>

definition ListItemService_create ::
  "string \<Rightarrow> ListItem list \<Rightarrow> CreateListItemInput \<Rightarrow> ListItem list \<times> (error + ListItem option)" where
  "ListItemService_create newId tbl createListItemInput =
     (let newListItem = \<lparr>id_listItem = newId,
                          quantity = quantity_createListItem createListItemInput,
                          completed = completed_createListItem createListItemInput,
                          listId = listId_createListItem createListItemInput,
                          itemId = itemId_createListItem createListItemInput\<rparr>
      in case insert_listItem tbl newListItem of
           Inl e \<Rightarrow> (tbl, Inl e)
         | Inr tbl' \<Rightarrow> (tbl', ListItemService_findOne tbl' (id_listItem newListItem)))"

text \<open>
  The \<open>SET\<close> clause of \<open>update\<close>: \<open>rest\<close> is the input without \<open>listId\<close> and \<open>itemId\<close>,
  so it carries \<open>id\<close> and whichever of \<open>quantity\<close> and \<open>completed\<close> are defined; the
  relations are set when the given identifier is truthy, that is a non-empty string.
\<close>

definition truthy_string :: "string option \<Rightarrow> bool" where
  "truthy_string s = (case s of None \<Rightarrow> False | Some v \<Rightarrow> v \<noteq> [])"

definition set_listItem :: "UpdateListItemInput \<Rightarrow> ListItem \<Rightarrow> ListItem" where
  "set_listItem inp r =
     \<lparr>id_listItem = id_updateListItem inp,
      quantity = (case quantity_updateListItem inp of None \<Rightarrow> quantity r | Some q \<Rightarrow> q),
      completed = (case completed_updateListItem inp of None \<Rightarrow> completed r | Some c \<Rightarrow> c),
      listId = (if truthy_string (listId_updateListItem inp)
                then the (listId_updateListItem inp) else listId r),
      itemId = (if truthy_string (itemId_updateListItem inp)
                then the (itemId_updateListItem inp) else itemId r)\<rparr>"

definition execute_update_listItem ::
  "ListItem list \<Rightarrow> string \<Rightarrow> UpdateListItemInput \<Rightarrow> error + ListItem list" where
  "execute_update_listItem tbl i inp =
     (let tbl' = map (\<lambda>r. if id_listItem r = i then set_listItem inp r else r) tbl in
      if \<not> (\<exists>r \<in> set tbl. id_listItem r = i) then Inr tbl
      else if \<not> distinct (map id_listItem tbl')
      then Inl (QueryFailedError ''23505''
             (''Key (id)=('' @ id_updateListItem inp @ '') already exists.''))
      else if \<not> distinct (map pair_listItem tbl')
      then Inl (QueryFailedError ''23505'' ''Key (listId, itemId) already exists.'')
      else Inr tbl')"

definition ListItemService_update ::
  "ListItem list \<Rightarrow> string \<Rightarrow> UpdateListItemInput \<Rightarrow> ListItem list \<times> (error + ListItem option)" where
  "ListItemService_update tbl i updateListItemInput =
     (case execute_update_listItem tbl i updateListItemInput of
        Inl e \<Rightarrow> (tbl, Inl e)
      | Inr tbl' \<Rightarrow> (tbl', ListItemService_findOne tbl' i))"

section \<open>Update of owned entities\<close>

text \<open>
  Modelled from the spec: \<open>UpdateItemInput\<close> is not among the sources; it is taken to
  be built as \<open>UpdateListInput\<close> (lists/dto/inputs/update-list.input.ts) is, the
  partial create input plus a mandatory \<open>id\<close>.
\<close>

record UpdateItemInput =
  id_updateItem :: string
  name_updateItem :: "string option"
  quantityUnits_updateItem :: "string option"

record UpdateListInput =
  id_updateList :: string
  name_updateList :: "string option"

text \<open>
  \<open>Repository.preload(input)\<close> looks the row up by the \<open>id\<close> property of the object
  it is given, which the storage layer reads as a \<open>uuid\<close> as it does in \<open>findOneBy\<close>,
  and writes the defined properties of the object over it; it yields undefined when no
  row has that identifier. \<open>Repository.save\<close> writes the entity over the row with its
  identifier, or inserts it.
\<close>

definition merge_item :: "UpdateItemInput \<Rightarrow> Item \<Rightarrow> Item" where
  "merge_item inp r =
     r\<lparr>name_item := (case name_updateItem inp of None \<Rightarrow> name_item r | Some v \<Rightarrow> v),
       quantityUnits := (case quantityUnits_updateItem inp of
                           None \<Rightarrow> quantityUnits r | Some v \<Rightarrow> Some v)\<rparr>"

definition preload_item :: "Item list \<Rightarrow> UpdateItemInput \<Rightarrow> error + Item option" where
  "preload_item tbl inp =
     (case uuid_in (id_updateItem inp) of
        None \<Rightarrow> Inl (invalid_uuid (id_updateItem inp))
      | Some c \<Rightarrow> Inr (map_option (merge_item inp) (find (\<lambda>r. id_item r = c) tbl)))"

definition save_item :: "Item list \<Rightarrow> Item \<Rightarrow> Item list" where
  "save_item tbl e =
     (if \<exists>row \<in> set tbl. id_item row = id_item e
      then map (\<lambda>row. if id_item row = id_item e then e else row) tbl
      else tbl @ [e])"

definition merge_list :: "UpdateListInput \<Rightarrow> List \<Rightarrow> List" where
  "merge_list inp r =
     r\<lparr>name_list := (case name_updateList inp of None \<Rightarrow> name_list r | Some v \<Rightarrow> v)\<rparr>"

definition preload_list :: "List list \<Rightarrow> UpdateListInput \<Rightarrow> error + List option" where
  "preload_list tbl inp =
     (case uuid_in (id_updateList inp) of
        None \<Rightarrow> Inl (invalid_uuid (id_updateList inp))
      | Some c \<Rightarrow> Inr (map_option (merge_list inp) (find (\<lambda>r. id_list r = c) tbl)))"

definition save_list :: "List list \<Rightarrow> List \<Rightarrow> List list" where
  "save_list tbl e =
     (if \<exists>row \<in> set tbl. id_list row = id_list e
      then map (\<lambda>row. if id_list row = id_list e then e else row) tbl
      else tbl @ [e])"

text \<open>
  \<open>update\<close> checks \<open>id\<close> with \<open>findOne\<close> and then preloads the input as it is: the row
  it loads and saves is the one named by the input's own \<open>id\<close>. The lists service
  words its second NotFound as the items service does.
\<close>

definition ItemsService_update ::
  "Item list \<Rightarrow> string \<Rightarrow> UpdateItemInput \<Rightarrow> User \<Rightarrow> error + Item list \<times> Item" where
  "ItemsService_update tbl i updateItemInput usr =
     (case ItemsService_findOne tbl i usr of
        Inl e \<Rightarrow> Inl e
      | Inr found \<Rightarrow>
          (case preload_item tbl updateItemInput of
             Inl e \<Rightarrow> Inl e
           | Inr None \<Rightarrow> Inl (NotFoundException (''Item with id: '' @ i @ '' not found''))
           | Inr (Some item) \<Rightarrow> Inr (save_item tbl item, item)))"

definition ListsService_update ::
  "List list \<Rightarrow> string \<Rightarrow> UpdateListInput \<Rightarrow> User \<Rightarrow> error + List list \<times> List" where
  "ListsService_update tbl i updateListInput usr =
     (case ListsService_findOne tbl i usr of
        Inl e \<Rightarrow> Inl e
      | Inr found \<Rightarrow>
          (case preload_list tbl updateListInput of
             Inl e \<Rightarrow> Inl e
           | Inr None \<Rightarrow> Inl (NotFoundException (''Item with id: '' @ i @ '' not found''))
           | Inr (Some l) \<Rightarrow> Inr (save_list tbl l, l)))"

section \<open>Paginated search\<close>

text \<open>
  \<open>PaginationArgs\<close> (common/dto/args/pagination.args.ts) and \<open>SearchArgs\<close>. The
  validators admit \<open>offset \<ge> 0\<close> and \<open>limit \<ge> 1\<close>; both are naturals here.
\<close>

record PaginationArgs =
  offset :: nat
  limit :: nat

record SearchArgs =
  search :: "string option"

text \<open>
  PostgreSQL's \<open>text LIKE pattern\<close>: in the pattern \<open>%\<close> stands for any run of
  characters, \<open>_\<close> for any one character, and a backslash takes the character after it
  literally; every other character stands for itself. A pattern that ends in a lone
  backslash is an error in PostgreSQL and false here; the patterns \<open>findAll\<close> builds
  end in \<open>%\<close>.
\<close>

fun like :: "string \<Rightarrow> string \<Rightarrow> bool" where
  "like [] [] = True"
| "like (c # s) [] = False"
| "like [] (p # ps) = (p = CHR ''%'' \<and> like [] ps)"
| "like (c # s) (p # ps) =
     (if p = CHR ''%'' then like (c # s) ps \<or> like s (p # ps)
      else if p = CHR ''_'' then like s ps
      else if p = CHR 0x5C then (case ps of [] \<Rightarrow> False | q # qs \<Rightarrow> c = q \<and> like s qs)
      else c = p \<and> like s ps)"

definition like_special :: "char \<Rightarrow> bool" where
  "like_special c = (c = CHR ''%'' \<or> c = CHR ''_'' \<or> c = CHR 0x5C)"

text \<open>
  The \<open>WHERE\<close> clause the query builder ends up with: the owner condition, and, when
  \<open>search\<close> is truthy, \<open>LOWER(name) LIKE '%' + search.toLowerCase() + '%'\<close>. The two
  case foldings are primitives of the platform, JavaScript's
  \<open>String.prototype.toLowerCase\<close> and SQL's \<open>LOWER\<close>, and are parameters: nothing is
  assumed of how they fold any letter.
\<close>

definition where_list ::
  "(string \<Rightarrow> string) \<Rightarrow> (string \<Rightarrow> string) \<Rightarrow> User \<Rightarrow> SearchArgs \<Rightarrow> List \<Rightarrow> bool" where
  "where_list toLowerCase LOWER usr searchArgs r =
     (userId_list r = id_user usr \<and>
      (if truthy_string (search searchArgs)
       then like (LOWER (name_list r)) (''%'' @ toLowerCase (the (search searchArgs)) @ ''%'')
       else True))"

definition where_item ::
  "(string \<Rightarrow> string) \<Rightarrow> (string \<Rightarrow> string) \<Rightarrow> User \<Rightarrow> SearchArgs \<Rightarrow> Item \<Rightarrow> bool" where
  "where_item toLowerCase LOWER usr searchArgs r =
     (userId_item r = id_user usr \<and>
      (if truthy_string (search searchArgs)
       then like (LOWER (name_item r)) (''%'' @ toLowerCase (the (search searchArgs)) @ ''%'')
       else True))"

text \<open>
  \<open>findAll\<close> of the lists service and of the paginated revision of the items
  service: the rows the \<open>WHERE\<close> clause keeps, in the order of the table (the query
  has no \<open>ORDER BY\<close>; the table's order stands for the stable order of one snapshot),
  after \<open>skip(offset)\<close> and \<open>take(limit)\<close>.
\<close>

definition ListsService_findAll ::
  "(string \<Rightarrow> string) \<Rightarrow> (string \<Rightarrow> string) \<Rightarrow> List list \<Rightarrow> User \<Rightarrow> PaginationArgs \<Rightarrow> SearchArgs
     \<Rightarrow> List list" where
  "ListsService_findAll toLowerCase LOWER tbl usr paginationArgs searchArgs =
     take (limit paginationArgs)
       (drop (offset paginationArgs) (filter (where_list toLowerCase LOWER usr searchArgs) tbl))"

definition ItemsService_findAll ::
  "(string \<Rightarrow> string) \<Rightarrow> (string \<Rightarrow> string) \<Rightarrow> Item list \<Rightarrow> User \<Rightarrow> PaginationArgs \<Rightarrow> SearchArgs
     \<Rightarrow> Item list" where
  "ItemsService_findAll toLowerCase LOWER tbl usr paginationArgs searchArgs =
     take (limit paginationArgs)
       (drop (offset paginationArgs) (filter (where_item toLowerCase LOWER usr searchArgs) tbl))"

section \<open>Example data\<close>

text \<open>
  Concrete instances of the external primitives and a few rows, on which the
  definitions above are evaluated below.
\<close>

definition example_hashSync :: "string \<Rightarrow> nat \<Rightarrow> string" where
  "example_hashSync data rounds = ''#'' @ data"

definition example_compareSync :: "string \<Rightarrow> string \<Rightarrow> bool" where
  "example_compareSync data encrypted = (encrypted = ''#'' @ data)"

definition example_sign :: "string \<Rightarrow> string" where
  "example_sign userId = ''jwt:'' @ userId"

definition alice :: User where
  "alice = \<lparr>id_user = ''a1'', fullName = ''Alice'', email = ''alice@x'',
            password = Some ''#secret'', roles_user = [''user''], isActive = True,
            lastUpdatedBy = None\<rparr>"

definition root_admin :: User where
  "root_admin = \<lparr>id_user = ''r0'', fullName = ''Root'', email = ''root@x'',
            password = Some ''#toor'', roles_user = [''admin''], isActive = True,
            lastUpdatedBy = None\<rparr>"

definition carol :: User where
  "carol = \<lparr>id_user = ''cccccccc-cccc-4ccc-8ccc-cccccccccccc'', fullName = ''Carol'',
            email = ''carol@x'', password = Some ''#carol'', roles_user = [''user''],
            isActive = True, lastUpdatedBy = None\<rparr>"

definition dave :: User where
  "dave = \<lparr>id_user = ''dddddddd-dddd-4ddd-8ddd-dddddddddddd'', fullName = ''Dave'',
            email = ''dave@x'', password = Some ''#dave'', roles_user = [''user''],
            isActive = True, lastUpdatedBy = None\<rparr>"

text \<open>
  On text made of ASCII characters both case foldings are this function: the letters
  \<open>A\<close> to \<open>Z\<close> (codes 65 to 90) move up by 32, every other character stays. It is used
  below on such text only.
\<close>

definition ascii_lower_char :: "char \<Rightarrow> char" where
  "ascii_lower_char c =
     (let n = (of_char c :: nat) in if 65 \<le> n \<and> n \<le> 90 then char_of (n + 32) else c)"

definition ascii_lower :: "string \<Rightarrow> string" where
  "ascii_lower s = map ascii_lower_char s"

definition example_lists :: "List list" where
  "example_lists =
     [\<lparr>id_list = ''00000000-0000-4000-8000-000000000001'', name_list = ''Groceries'',
       userId_list = ''cccccccc-cccc-4ccc-8ccc-cccccccccccc''\<rparr>,
      \<lparr>id_list = ''00000000-0000-4000-8000-000000000002'', name_list = ''Hardware'',
       userId_list = ''dddddddd-dddd-4ddd-8ddd-dddddddddddd''\<rparr>,
      \<lparr>id_list = ''00000000-0000-4000-8000-000000000003'', name_list = ''Green tea'',
       userId_list = ''cccccccc-cccc-4ccc-8ccc-cccccccccccc''\<rparr>,
      \<lparr>id_list = ''00000000-0000-4000-8000-000000000004'', name_list = ''grOup trip'',
       userId_list = ''cccccccc-cccc-4ccc-8ccc-cccccccccccc''\<rparr>]"

definition example_items :: "Item list" where
  "example_items =
     [\<lparr>id_item = ''00000000-0000-4000-8000-00000000000a'', name_item = ''Grapes'',
       quantityUnits = Some ''kg'', userId_item = ''cccccccc-cccc-4ccc-8ccc-cccccccccccc''\<rparr>,
      \<lparr>id_item = ''00000000-0000-4000-8000-00000000000b'', name_item = ''Milk'',
       quantityUnits = None, userId_item = ''cccccccc-cccc-4ccc-8ccc-cccccccccccc''\<rparr>,
      \<lparr>id_item = ''00000000-0000-4000-8000-00000000000c'', name_item = ''Gravel'',
       quantityUnits = None, userId_item = ''dddddddd-dddd-4ddd-8ddd-dddddddddddd''\<rparr>]"

section \<open>Properties of the ownership-scoped lookup\<close>

lemma uuid_in_examples:
  "uuid_in ''11111111-1111-4111-8111-111111111111'' = Some ''11111111-1111-4111-8111-111111111111''"
  "uuid_in ''22222222-2222-4222-8222-222222222222'' = Some ''22222222-2222-4222-8222-222222222222''"
  "uuid_in ''99999999-9999-4999-8999-999999999999'' = Some ''99999999-9999-4999-8999-999999999999''"
  "uuid_in ''{11111111111141118111-111111111111}'' = Some ''11111111-1111-4111-8111-111111111111''"
  "uuid_in ''AAAAAAAA-BBBB-4CCC-8DDD-EEEEEEEEFFFF'' = Some ''aaaaaaaa-bbbb-4ccc-8ddd-eeeeeeeeffff''"
  "uuid_in ''not-a-uuid'' = None"
  "uuid_in ''11111111-1111-4111-8111-11111111111'' = None"
  "uuid_in ''1-1111111-1111-4111-8111-111111111111'' = None"
  by code_simp+

lemma ItemsService_findOne_uuid:
  "uuid_in i = Some c \<Longrightarrow>
     ItemsService_findOne tbl i u =
       (case find (\<lambda>r. id_item r = c \<and> userId_item r = id_user u) tbl of
          None \<Rightarrow> Inl (NotFoundException (''Item with id: '' @ i @ '' not found''))
        | Some item \<Rightarrow> Inr item)"
  by (simp add: ItemsService_findOne_def findOneBy_item_def)

lemma ListsService_findOne_uuid:
  "uuid_in i = Some c \<Longrightarrow>
     ListsService_findOne tbl i u =
       (case find (\<lambda>r. id_list r = c \<and> userId_list r = id_user u) tbl of
          None \<Rightarrow> Inl (NotFoundException (''List with id: '' @ i @ '' not found''))
        | Some l \<Rightarrow> Inr l)"
  by (simp add: ListsService_findOne_def findOneBy_list_def)

lemma ItemsService_findOne_malformed:
  "uuid_in i = None \<Longrightarrow> ItemsService_findOne tbl i u = Inl (invalid_uuid i)"
  by (simp add: ItemsService_findOne_def findOneBy_item_def)

lemma ListsService_findOne_malformed:
  "uuid_in i = None \<Longrightarrow> ListsService_findOne tbl i u = Inl (invalid_uuid i)"
  by (simp add: ListsService_findOne_def findOneBy_list_def)








section \<open>Properties of the role gate\<close>



section \<open>Properties of the users and auth services\<close>

lemma find_id_user_replaced:
  "id_user v = i \<Longrightarrow> \<exists>row \<in> set tbl. id_user row = i \<Longrightarrow>
     find (\<lambda>u. id_user u = i) (map (\<lambda>row. if id_user row = i then v else row) tbl) = Some v"
  by (induction tbl) auto

lemma find_id_user_appended:
  "id_user v = i \<Longrightarrow> \<not> (\<exists>row \<in> set tbl. id_user row = i) \<Longrightarrow>
     find (\<lambda>u. id_user u = i) (tbl @ [v]) = Some v"
  by (induction tbl) auto

lemma save_user_then_findOneById:
  assumes "save_user tbl v = Inr tbl'"
  shows "UsersService_findOneById tbl' (id_user v) = Inr v"
proof (cases "\<exists>row \<in> set tbl. id_user row = id_user v")
  case True
  with assms have "tbl' = map (\<lambda>row. if id_user row = id_user v then v else row) tbl"
    by (simp add: save_user_def split: if_splits)
  with True show ?thesis
    by (simp add: UsersService_findOneById_def find_id_user_replaced)
next
  case False
  with assms have "tbl' = tbl @ [v]"
    by (simp add: save_user_def split: if_splits)
  with False show ?thesis
    by (simp add: UsersService_findOneById_def find_id_user_appended)
qed

lemma findOneById_id: "UsersService_findOneById tbl i = Inr u \<Longrightarrow> id_user u = i \<and> u \<in> set tbl"
  by (auto simp: UsersService_findOneById_def find_Some_iff split: option.splits)

lemma UsersService_block_result:
  assumes "UsersService_block tbl i adminUser = Inr (tbl', blocked)"
  shows "\<not> isActive blocked" and "lastUpdatedBy blocked = Some (id_user adminUser)"
    and "id_user blocked = i" and "UsersService_findOneById tbl' i = Inr blocked"
proof -
  from assms obtain u where u: "UsersService_findOneById tbl i = Inr u"
    and b: "blocked = u\<lparr>isActive := False, lastUpdatedBy := Some (id_user adminUser)\<rparr>"
    and s: "save_user tbl blocked = Inr tbl'"
    by (auto simp: UsersService_block_def Let_def split: sum.splits)
  from b show "\<not> isActive blocked" and "lastUpdatedBy blocked = Some (id_user adminUser)"
    by simp_all
  from u b show i: "id_user blocked = i"
    using findOneById_id [of tbl i u] by simp
  from save_user_then_findOneById [OF s] i show "UsersService_findOneById tbl' i = Inr blocked"
    by simp
qed

lemma UsersService_update_result:
  assumes "UsersService_update tbl i inp updatedBy = Inr (tbl', u')"
  shows "lastUpdatedBy u' = Some (id_user updatedBy)"
    and "id_user u' = i" and "UsersService_findOneById tbl' i = Inr u'"
proof -
  from assms obtain u where p: "preload_user tbl inp i = Some u"
    and b: "u' = u\<lparr>lastUpdatedBy := Some (id_user updatedBy)\<rparr>"
    and s: "save_user tbl u' = Inr tbl'"
    by (auto simp: UsersService_update_def Let_def split: option.splits sum.splits)
  from b show "lastUpdatedBy u' = Some (id_user updatedBy)" by simp
  from p obtain r where "find (\<lambda>u. id_user u = i) tbl = Some r" and "u = merge_user inp r"
    by (auto simp: preload_user_def)
  then have "id_user u = i"
    by (auto simp: merge_user_def find_Some_iff)
  with b show i: "id_user u' = i" by simp
  from save_user_then_findOneById [OF s] i show "UsersService_findOneById tbl' i = Inr u'"
    by simp
qed

text \<open>
  \<open>block\<close> completes for every stored user, on a table that respects the unique
  constraint on \<open>email\<close>.
\<close>

lemma UsersService_block_completes:
  assumes "distinct (map email tbl)" and "x \<in> set tbl" and "id_user x = i"
  shows "\<exists>tbl' blocked. UsersService_block tbl i adminUser = Inr (tbl', blocked)"
proof -
  from assms(2,3) obtain u where u: "UsersService_findOneById tbl i = Inr u"
    by (cases "find (\<lambda>u. id_user u = i) tbl")
       (auto simp: UsersService_findOneById_def find_None_iff)
  then have iu: "id_user u = i" and mu: "u \<in> set tbl"
    using findOneById_id [of tbl i u] by simp_all
  have "\<not> (\<exists>row \<in> set tbl. id_user row \<noteq> i \<and> email row = email u)"
  proof
    assume "\<exists>row \<in> set tbl. id_user row \<noteq> i \<and> email row = email u"
    then obtain row where r: "row \<in> set tbl" "id_user row \<noteq> i" "email row = email u"
      by blast
    with iu have "row \<noteq> u" by auto
    with assms(1) r(1) mu have "email row \<noteq> email u"
      by (meson distinct_map inj_onD)
    with r(3) show False by simp
  qed
  with u iu mu show ?thesis
    by (auto simp: UsersService_block_def save_user_def Let_def)
qed

text \<open>
  C7. Whenever \<open>block\<close> completes for the identifier of a user, the user it stored and
  returned is inactive, it is the user that identifier now resolves to, and validating
  that identifier afterwards fails with the Unauthorized exception. The strategy's
  \<open>validate\<close> fails the same way for every payload carrying the identifier, whatever its
  issue and expiry times.
\<close>

theorem block_then_validateUser_Unauthorized:
  assumes "UsersService_block tbl i adminUser = Inr (tbl', blocked)"
  shows "isActive blocked = False
    \<and> UsersService_findOneById tbl' i = Inr blocked
    \<and> AuthService_validateUser tbl' i =
        Inl (UnauthorizedException ''User is inactive, talk with an admin'')
    \<and> JwtStrategy_validate tbl' \<lparr>id_jwt = i, iat = issued, exp = expires\<rparr> =
        Inl (UnauthorizedException ''User is inactive, talk with an admin'')"
  using UsersService_block_result [OF assms]
  by (simp add: AuthService_validateUser_def JwtStrategy_validate_def)

theorem block_then_validateUser_Unauthorized_witness:
  "UsersService_block [root_admin, alice] ''a1'' root_admin =
     Inr ([root_admin, alice\<lparr>isActive := False, lastUpdatedBy := Some ''r0''\<rparr>],
          alice\<lparr>isActive := False, lastUpdatedBy := Some ''r0''\<rparr>)
   \<and> AuthService_validateUser [root_admin, alice] ''a1'' = Inr (alice\<lparr>password := None\<rparr>)
   \<and> AuthService_validateUser
        [root_admin, alice\<lparr>isActive := False, lastUpdatedBy := Some ''r0''\<rparr>] ''a1'' =
        Inl (UnauthorizedException ''User is inactive, talk with an admin'')"
proof -
  have h: "UsersService_block [root_admin, alice] ''a1'' root_admin =
     Inr ([root_admin, alice\<lparr>isActive := False, lastUpdatedBy := Some ''r0''\<rparr>],
          alice\<lparr>isActive := False, lastUpdatedBy := Some ''r0''\<rparr>)"
    by (simp add: UsersService_block_def UsersService_findOneById_def save_user_def Let_def
        alice_def root_admin_def)
  have v: "AuthService_validateUser [root_admin, alice] ''a1'' = Inr (alice\<lparr>password := None\<rparr>)"
    by (simp add: AuthService_validateUser_def UsersService_findOneById_def
        alice_def root_admin_def)
  from h v block_then_validateUser_Unauthorized [OF h] show ?thesis
    by simp
qed

text \<open>
  C10. Every successful \<open>update\<close> and every successful \<open>block\<close> of the users service
  stores, under the identifier it was called with, a user whose \<open>lastUpdatedBy\<close> is
  the acting user passed in.
\<close>

theorem lastUpdatedBy_names_acting_user:
  "(UsersService_update tbl i inp updatedBy = Inr (tbl', u') \<longrightarrow>
      lastUpdatedBy u' = Some (id_user updatedBy) \<and> UsersService_findOneById tbl' i = Inr u')
   \<and> (UsersService_block tbl i adminUser = Inr (tbl'', u'') \<longrightarrow>
      lastUpdatedBy u'' = Some (id_user adminUser) \<and> UsersService_findOneById tbl'' i = Inr u'')"
  using UsersService_update_result [of tbl i inp updatedBy tbl' u']
    UsersService_block_result [of tbl i adminUser tbl'' u'']
  by blast

theorem lastUpdatedBy_names_acting_user_witness:
  "UsersService_update [root_admin, alice] ''a1''
      \<lparr>id_updateUser = ''a1'', email_updateUser = None, fullName_updateUser = Some ''Alice B'',
        password_updateUser = None, roles_updateUser = None, isActive_updateUser = None\<rparr>
      root_admin =
     Inr ([root_admin, alice\<lparr>fullName := ''Alice B'', lastUpdatedBy := Some ''r0''\<rparr>],
          alice\<lparr>fullName := ''Alice B'', lastUpdatedBy := Some ''r0''\<rparr>)
   \<and> lastUpdatedBy (alice\<lparr>fullName := ''Alice B'', lastUpdatedBy := Some ''r0''\<rparr>) =
       Some (id_user root_admin)
   \<and> UsersService_findOneById
       [root_admin, alice\<lparr>fullName := ''Alice B'', lastUpdatedBy := Some ''r0''\<rparr>] ''a1'' =
       Inr (alice\<lparr>fullName := ''Alice B'', lastUpdatedBy := Some ''r0''\<rparr>)
   \<and> UsersService_block [root_admin, alice] ''a1'' root_admin =
     Inr ([root_admin, alice\<lparr>isActive := False, lastUpdatedBy := Some ''r0''\<rparr>],
          alice\<lparr>isActive := False, lastUpdatedBy := Some ''r0''\<rparr>)
   \<and> lastUpdatedBy (alice\<lparr>isActive := False, lastUpdatedBy := Some ''r0''\<rparr>) =
       Some (id_user root_admin)"
proof -
  have h1: "UsersService_update [root_admin, alice] ''a1''
      \<lparr>id_updateUser = ''a1'', email_updateUser = None, fullName_updateUser = Some ''Alice B'',
        password_updateUser = None, roles_updateUser = None, isActive_updateUser = None\<rparr>
      root_admin =
     Inr ([root_admin, alice\<lparr>fullName := ''Alice B'', lastUpdatedBy := Some ''r0''\<rparr>],
          alice\<lparr>fullName := ''Alice B'', lastUpdatedBy := Some ''r0''\<rparr>)"
    by (simp add: UsersService_update_def preload_user_def merge_user_def save_user_def Let_def
        alice_def root_admin_def)
  have h2: "UsersService_block [root_admin, alice] ''a1'' root_admin =
     Inr ([root_admin, alice\<lparr>isActive := False, lastUpdatedBy := Some ''r0''\<rparr>],
          alice\<lparr>isActive := False, lastUpdatedBy := Some ''r0''\<rparr>)"
    by (simp add: UsersService_block_def UsersService_findOneById_def save_user_def Let_def
        alice_def root_admin_def)
  from h1 h2 lastUpdatedBy_names_acting_user
    [of "[root_admin, alice]" "''a1''"
      "\<lparr>id_updateUser = ''a1'', email_updateUser = None, fullName_updateUser = Some ''Alice B'',
        password_updateUser = None, roles_updateUser = None, isActive_updateUser = None\<rparr>"
      root_admin
      "[root_admin, alice\<lparr>fullName := ''Alice B'', lastUpdatedBy := Some ''r0''\<rparr>]"
      "alice\<lparr>fullName := ''Alice B'', lastUpdatedBy := Some ''r0''\<rparr>"
      root_admin
      "[root_admin, alice\<lparr>isActive := False, lastUpdatedBy := Some ''r0''\<rparr>]"
      "alice\<lparr>isActive := False, lastUpdatedBy := Some ''r0''\<rparr>"]
  show ?thesis
    by (simp add: root_admin_def)
qed

lemma findOneByEmail_absent:
  "(\<forall>u \<in> set tbl. email u \<noteq> e) \<Longrightarrow>
     UsersService_findOneByEmail tbl e = Inl (NotFoundException (e @ '' not found''))"
  by (simp add: UsersService_findOneByEmail_def find_None_iff [THEN iffD2])

text \<open>
  C4 as stated fails: a wrong password for a stored email is answered with
  the Bad Request exception, not an Unauthorized one, and an email that is not stored is
  answered with the Not Found exception naming the email, so the two answers differ in
  kind and in message.
\<close>

theorem login_errors_differ_counterexample:
  "AuthService_login example_compareSync example_sign [alice]
      \<lparr>email_login = ''alice@x'', password_login = ''wrong''\<rparr> =
     Inl (BadRequestException ''Email / Password do not match'')
   \<and> AuthService_login example_compareSync example_sign [alice]
      \<lparr>email_login = ''nobody@x'', password_login = ''wrong''\<rparr> =
     Inl (NotFoundException ''nobody@x not found'')
   \<and> AuthService_login example_compareSync example_sign [alice]
      \<lparr>email_login = ''alice@x'', password_login = ''wrong''\<rparr> \<noteq>
     AuthService_login example_compareSync example_sign [alice]
      \<lparr>email_login = ''nobody@x'', password_login = ''wrong''\<rparr>"
  by (simp add: AuthService_login_def UsersService_findOneByEmail_def example_compareSync_def
      alice_def)

text \<open>
  C4, amended. For every login attempt, a password that does not match the stored hash
  of the user the email resolves to fails with the Bad Request exception and the fixed
  message \<open>Email / Password do not match\<close>, which names neither the email nor the
  password; an email no stored user has fails with the Not Found exception whose
  message is the email followed by \<open>not found\<close>. The two failures are never equal.
\<close>

theorem login_failures:
  "(UsersService_findOneByEmail tbl (email_login inp) = Inr u \<and> password u = Some h
      \<and> \<not> compareSync (password_login inp) h \<longrightarrow>
      AuthService_login compareSync sign tbl inp =
        Inl (BadRequestException ''Email / Password do not match''))
   \<and> ((\<forall>u \<in> set tbl. email u \<noteq> email_login inp) \<longrightarrow>
      AuthService_login compareSync sign tbl inp =
        Inl (NotFoundException (email_login inp @ '' not found'')))
   \<and> Inl (BadRequestException ''Email / Password do not match'') \<noteq>
      (Inl (NotFoundException (email_login inp @ '' not found'')) :: error + AuthResponse)"
  using findOneByEmail_absent [of tbl "email_login inp"]
  by (auto simp: AuthService_login_def)

theorem login_failures_witness:
  "AuthService_login example_compareSync example_sign [alice]
      \<lparr>email_login = ''alice@x'', password_login = ''wrong''\<rparr> =
     Inl (BadRequestException ''Email / Password do not match'')
   \<and> AuthService_login example_compareSync example_sign [alice]
      \<lparr>email_login = ''nobody@x'', password_login = ''wrong''\<rparr> =
     Inl (NotFoundException ''nobody@x not found'')"
proof -
  have f: "UsersService_findOneByEmail [alice]
      (email_login \<lparr>email_login = ''alice@x'', password_login = ''wrong''\<rparr>) = Inr alice"
    by (simp add: UsersService_findOneByEmail_def alice_def)
  have p: "password alice = Some ''#secret''"
    by (simp add: alice_def)
  have c: "\<not> example_compareSync
      (password_login \<lparr>email_login = ''alice@x'', password_login = ''wrong''\<rparr>) ''#secret''"
    by (simp add: example_compareSync_def)
  have a: "\<forall>u \<in> set [alice].
      email u \<noteq> email_login \<lparr>email_login = ''nobody@x'', password_login = ''wrong''\<rparr>"
    by (simp add: alice_def)
  from f p c
    login_failures [of "[alice]" "\<lparr>email_login = ''alice@x'', password_login = ''wrong''\<rparr>"
      alice "''#secret''" example_compareSync example_sign]
  have 1: "AuthService_login example_compareSync example_sign [alice]
      \<lparr>email_login = ''alice@x'', password_login = ''wrong''\<rparr> =
     Inl (BadRequestException ''Email / Password do not match'')"
    by blast
  from a
    login_failures [of "[alice]" "\<lparr>email_login = ''nobody@x'', password_login = ''wrong''\<rparr>"
      alice "''#secret''" example_compareSync example_sign]
  have 2: "AuthService_login example_compareSync example_sign [alice]
      \<lparr>email_login = ''nobody@x'', password_login = ''wrong''\<rparr> =
     Inl (NotFoundException ''nobody@x not found'')"
    by simp
  from 1 2 show ?thesis by simp
qed

lemma validateUser_strips_password:
  "AuthService_validateUser tbl i = Inr u \<Longrightarrow> password u = None"
  by (auto simp: AuthService_validateUser_def split: sum.splits if_splits)

lemma login_keeps_password:
  "AuthService_login compareSync sign tbl inp = Inr r \<Longrightarrow>
     password (user_auth r) \<noteq> None \<and> user_auth r \<in> set tbl"
  by (auto simp: AuthService_login_def UsersService_findOneByEmail_def find_Some_iff
      split: sum.splits option.splits if_splits)

text \<open>
  C9 fails on \<open>login\<close> and on \<open>signup\<close>: \<open>validateUser\<close> deletes the password from
  the user it returns, but the user inside the response of a successful \<open>login\<close> is the
  stored row with its password hash, and the user inside the response of \<open>signup\<close> is
  the row just stored, hash included.
\<close>

theorem login_signup_return_password_hash:
  "AuthService_login example_compareSync example_sign [alice]
      \<lparr>email_login = ''alice@x'', password_login = ''secret''\<rparr> =
     Inr \<lparr>token = ''jwt:a1'', user_auth = alice\<rparr>
   \<and> password alice = Some ''#secret''
   \<and> AuthService_signup example_hashSync example_sign ''b2'' [alice]
      \<lparr>email_signup = ''bob@x'', fullName_signup = ''Bob'', password_signup = ''hunter2''\<rparr> =
     Inr ([alice,
           \<lparr>id_user = ''b2'', fullName = ''Bob'', email = ''bob@x'', password = Some ''#hunter2'',
             roles_user = [''user''], isActive = True, lastUpdatedBy = None\<rparr>],
          \<lparr>token = ''jwt:b2'',
            user_auth = \<lparr>id_user = ''b2'', fullName = ''Bob'', email = ''bob@x'',
              password = Some ''#hunter2'', roles_user = [''user''], isActive = True,
              lastUpdatedBy = None\<rparr>\<rparr>)
   \<and> AuthService_validateUser [alice] ''a1'' = Inr (alice\<lparr>password := None\<rparr>)"
  by (simp add: AuthService_login_def AuthService_signup_def AuthService_validateUser_def
      UsersService_findOneByEmail_def UsersService_findOneById_def UsersService_create_def
      save_user_def getJwtToken_def example_compareSync_def example_hashSync_def
      example_sign_def alice_def Let_def)

section \<open>Properties of the list item service\<close>

lemma ListItemService_findOne_never_fails:
  "ListItemService_findOne tbl i = Inr (find (\<lambda>r. id_listItem r = i) tbl)"
  by (simp add: ListItemService_findOne_def findOneBy_listItem_def)

lemma ListItemService_findOne_absent:
  "\<not> (\<exists>r \<in> set tbl. id_listItem r = i) \<Longrightarrow> ListItemService_findOne tbl i = Inr None"
  by (simp add: ListItemService_findOne_never_fails find_None_iff)

lemma ListItemService_update_absent:
  "\<not> (\<exists>r \<in> set tbl. id_listItem r = i) \<Longrightarrow>
     ListItemService_update tbl i inp = (tbl, Inr None)"
  using ListItemService_findOne_absent [of tbl i]
  by (simp add: ListItemService_update_def execute_update_listItem_def)

text \<open>
  The unique pair is an invariant of the table: \<open>create\<close> and \<open>update\<close> keep the pairs
  (\<open>listId\<close>, \<open>itemId\<close>) of the stored rows distinct.
\<close>

lemma ListItemService_create_pairs_distinct:
  assumes "distinct (map pair_listItem tbl)"
  shows "distinct (map pair_listItem (fst (ListItemService_create newId tbl inp)))"
proof (cases "insert_listItem tbl \<lparr>id_listItem = newId,
                          quantity = quantity_createListItem inp,
                          completed = completed_createListItem inp,
                          listId = listId_createListItem inp,
                          itemId = itemId_createListItem inp\<rparr>")
  case (Inl e)
  with assms show ?thesis
    by (simp add: ListItemService_create_def)
next
  case (Inr tbl')
  then have "tbl' = tbl @ [\<lparr>id_listItem = newId,
                          quantity = quantity_createListItem inp,
                          completed = completed_createListItem inp,
                          listId = listId_createListItem inp,
                          itemId = itemId_createListItem inp\<rparr>]"
    and "\<not> (\<exists>r \<in> set tbl. pair_listItem r = pair_listItem \<lparr>id_listItem = newId,
                          quantity = quantity_createListItem inp,
                          completed = completed_createListItem inp,
                          listId = listId_createListItem inp,
                          itemId = itemId_createListItem inp\<rparr>)"
    by (simp_all add: insert_listItem_def split: if_splits)
  with assms have "distinct (map pair_listItem tbl')"
    by (simp add: image_iff) metis
  with Inr show ?thesis
    by (simp add: ListItemService_create_def)
qed

lemma ListItemService_update_pairs_distinct:
  assumes "distinct (map pair_listItem tbl)"
  shows "distinct (map pair_listItem (fst (ListItemService_update tbl i inp)))"
proof (cases "execute_update_listItem tbl i inp")
  case (Inl e)
  with assms show ?thesis
    by (simp add: ListItemService_update_def)
next
  case (Inr tbl')
  with assms have "distinct (map pair_listItem tbl')"
    by (auto simp: execute_update_listItem_def Let_def split: if_splits)
  with Inr show ?thesis
    by (simp add: ListItemService_update_def)
qed



section \<open>Properties of the update of owned entities\<close>

lemma distinct_map_eqD:
  "distinct (map f xs) \<Longrightarrow> x \<in> set xs \<Longrightarrow> y \<in> set xs \<Longrightarrow> f x = f y \<Longrightarrow> x = y"
  by (meson distinct_map inj_onD)

text \<open>
  When the input's \<open>id\<close> is the identifier \<open>update\<close> is called with, as in the
  resolvers' calls, and identifiers are unique in the table, \<open>update\<close> fails as
  \<open>findOne\<close> does, and otherwise writes the merge of the input over the row \<open>findOne\<close>
  found and over no other row.
\<close>

lemma ItemsService_update_same_id:
  assumes d: "distinct (map id_item tbl)" and same: "id_updateItem inp = i"
  shows "ItemsService_update tbl i inp u =
     (case ItemsService_findOne tbl i u of
        Inl e \<Rightarrow> Inl e
      | Inr r \<Rightarrow> Inr (map (\<lambda>row. if id_item row = id_item r then merge_item inp r else row) tbl,
                     merge_item inp r))"
proof (cases "ItemsService_findOne tbl i u")
  case (Inl e)
  then show ?thesis by (simp add: ItemsService_update_def)
next
  case (Inr r)
  then obtain c where c: "uuid_in i = Some c"
    by (cases "uuid_in i") (auto simp: ItemsService_findOne_malformed)
  with Inr have "find (\<lambda>r. id_item r = c \<and> userId_item r = id_user u) tbl = Some r"
    by (auto simp: ItemsService_findOne_uuid split: option.splits)
  then have r: "r \<in> set tbl" "id_item r = c"
    by (auto simp: find_Some_iff)
  then obtain r' where f: "find (\<lambda>r. id_item r = c) tbl = Some r'"
    by (cases "find (\<lambda>r. id_item r = c) tbl") (auto simp: find_None_iff)
  then have "r' \<in> set tbl" "id_item r' = c"
    by (auto simp: find_Some_iff)
  with r d have "r' = r"
    using distinct_map_eqD [of id_item tbl r' r] by simp
  with f same c have p: "preload_item tbl inp = Inr (Some (merge_item inp r))"
    by (simp add: preload_item_def)
  have m: "id_item (merge_item inp r) = id_item r"
    by (simp add: merge_item_def)
  from r m have "save_item tbl (merge_item inp r) =
      map (\<lambda>row. if id_item row = id_item r then merge_item inp r else row) tbl"
    by (auto simp: save_item_def)
  with Inr p show ?thesis
    by (simp add: ItemsService_update_def)
qed

lemma ListsService_update_same_id:
  assumes d: "distinct (map id_list tbl)" and same: "id_updateList inp = i"
  shows "ListsService_update tbl i inp u =
     (case ListsService_findOne tbl i u of
        Inl e \<Rightarrow> Inl e
      | Inr r \<Rightarrow> Inr (map (\<lambda>row. if id_list row = id_list r then merge_list inp r else row) tbl,
                     merge_list inp r))"
proof (cases "ListsService_findOne tbl i u")
  case (Inl e)
  then show ?thesis by (simp add: ListsService_update_def)
next
  case (Inr r)
  then obtain c where c: "uuid_in i = Some c"
    by (cases "uuid_in i") (auto simp: ListsService_findOne_malformed)
  with Inr have "find (\<lambda>r. id_list r = c \<and> userId_list r = id_user u) tbl = Some r"
    by (auto simp: ListsService_findOne_uuid split: option.splits)
  then have r: "r \<in> set tbl" "id_list r = c"
    by (auto simp: find_Some_iff)
  then obtain r' where f: "find (\<lambda>r. id_list r = c) tbl = Some r'"
    by (cases "find (\<lambda>r. id_list r = c) tbl") (auto simp: find_None_iff)
  then have "r' \<in> set tbl" "id_list r' = c"
    by (auto simp: find_Some_iff)
  with r d have "r' = r"
    using distinct_map_eqD [of id_list tbl r' r] by simp
  with f same c have p: "preload_list tbl inp = Inr (Some (merge_list inp r))"
    by (simp add: preload_list_def)
  have m: "id_list (merge_list inp r) = id_list r"
    by (simp add: merge_list_def)
  from r m have "save_list tbl (merge_list inp r) =
      map (\<lambda>row. if id_list row = id_list r then merge_list inp r else row) tbl"
    by (auto simp: save_list_def)
  with Inr p show ?thesis
    by (simp add: ListsService_update_def)
qed

text \<open>
  C8 fails when the input's \<open>id\<close> differs from the identifier passed beside it. The
  requester, Carol, owns the row of identifier \<open>1111\<dots>\<close>; the input names the row of
  identifier \<open>2222\<dots>\<close>, which Dave owns. \<open>update\<close> accepts, because \<open>findOne\<close> is asked
  about the first, and then rewrites the second. When the input names no row at all,
  \<open>update\<close> fails with NotFound although \<open>findOne\<close> succeeds. Both services behave so.
\<close>

theorem update_writes_row_named_by_input:
  "ItemsService_findOne
      [\<lparr>id_item = ''11111111-1111-4111-8111-111111111111'', name_item = ''Milk'',
        quantityUnits = None, userId_item = id_user carol\<rparr>,
       \<lparr>id_item = ''22222222-2222-4222-8222-222222222222'', name_item = ''Salt'',
        quantityUnits = None, userId_item = id_user dave\<rparr>]
      ''11111111-1111-4111-8111-111111111111'' carol =
     Inr \<lparr>id_item = ''11111111-1111-4111-8111-111111111111'', name_item = ''Milk'',
        quantityUnits = None, userId_item = id_user carol\<rparr>
   \<and> ItemsService_update
      [\<lparr>id_item = ''11111111-1111-4111-8111-111111111111'', name_item = ''Milk'',
        quantityUnits = None, userId_item = id_user carol\<rparr>,
       \<lparr>id_item = ''22222222-2222-4222-8222-222222222222'', name_item = ''Salt'',
        quantityUnits = None, userId_item = id_user dave\<rparr>]
      ''11111111-1111-4111-8111-111111111111''
      \<lparr>id_updateItem = ''22222222-2222-4222-8222-222222222222'',
        name_updateItem = Some ''Sand'', quantityUnits_updateItem = None\<rparr>
      carol =
     Inr ([\<lparr>id_item = ''11111111-1111-4111-8111-111111111111'', name_item = ''Milk'',
            quantityUnits = None, userId_item = id_user carol\<rparr>,
           \<lparr>id_item = ''22222222-2222-4222-8222-222222222222'', name_item = ''Sand'',
            quantityUnits = None, userId_item = id_user dave\<rparr>],
          \<lparr>id_item = ''22222222-2222-4222-8222-222222222222'', name_item = ''Sand'',
            quantityUnits = None, userId_item = id_user dave\<rparr>)
   \<and> ItemsService_update
      [\<lparr>id_item = ''11111111-1111-4111-8111-111111111111'', name_item = ''Milk'',
        quantityUnits = None, userId_item = id_user carol\<rparr>,
       \<lparr>id_item = ''22222222-2222-4222-8222-222222222222'', name_item = ''Salt'',
        quantityUnits = None, userId_item = id_user dave\<rparr>]
      ''11111111-1111-4111-8111-111111111111''
      \<lparr>id_updateItem = ''99999999-9999-4999-8999-999999999999'',
        name_updateItem = Some ''Sand'', quantityUnits_updateItem = None\<rparr>
      carol =
     Inl (NotFoundException ''Item with id: 11111111-1111-4111-8111-111111111111 not found'')
   \<and> ListsService_findOne
      [\<lparr>id_list = ''11111111-1111-4111-8111-111111111111'', name_list = ''Groceries'',
        userId_list = id_user carol\<rparr>,
       \<lparr>id_list = ''22222222-2222-4222-8222-222222222222'', name_list = ''Hardware'',
        userId_list = id_user dave\<rparr>]
      ''11111111-1111-4111-8111-111111111111'' carol =
     Inr \<lparr>id_list = ''11111111-1111-4111-8111-111111111111'', name_list = ''Groceries'',
        userId_list = id_user carol\<rparr>
   \<and> ListsService_update
      [\<lparr>id_list = ''11111111-1111-4111-8111-111111111111'', name_list = ''Groceries'',
        userId_list = id_user carol\<rparr>,
       \<lparr>id_list = ''22222222-2222-4222-8222-222222222222'', name_list = ''Hardware'',
        userId_list = id_user dave\<rparr>]
      ''11111111-1111-4111-8111-111111111111''
      \<lparr>id_updateList = ''22222222-2222-4222-8222-222222222222'',
        name_updateList = Some ''Mine now''\<rparr> carol =
     Inr ([\<lparr>id_list = ''11111111-1111-4111-8111-111111111111'', name_list = ''Groceries'',
            userId_list = id_user carol\<rparr>,
           \<lparr>id_list = ''22222222-2222-4222-8222-222222222222'', name_list = ''Mine now'',
            userId_list = id_user dave\<rparr>],
          \<lparr>id_list = ''22222222-2222-4222-8222-222222222222'', name_list = ''Mine now'',
            userId_list = id_user dave\<rparr>)
   \<and> ListsService_update
      [\<lparr>id_list = ''11111111-1111-4111-8111-111111111111'', name_list = ''Groceries'',
        userId_list = id_user carol\<rparr>,
       \<lparr>id_list = ''22222222-2222-4222-8222-222222222222'', name_list = ''Hardware'',
        userId_list = id_user dave\<rparr>]
      ''11111111-1111-4111-8111-111111111111''
      \<lparr>id_updateList = ''99999999-9999-4999-8999-999999999999'',
        name_updateList = Some ''Mine now''\<rparr> carol =
     Inl (NotFoundException ''Item with id: 11111111-1111-4111-8111-111111111111 not found'')
   \<and> id_user carol \<noteq> id_user dave"
  by (simp add: ItemsService_update_def ItemsService_findOne_def findOneBy_item_def
      preload_item_def merge_item_def save_item_def
      ListsService_update_def ListsService_findOne_def findOneBy_list_def
      preload_list_def merge_list_def save_list_def uuid_in_examples carol_def dave_def)

section \<open>Properties of the paginated search\<close>

lemma like_literal:
  "\<forall>c \<in> set lit. \<not> like_special c \<Longrightarrow>
     like s (lit @ ps) = (\<exists>rest. s = lit @ rest \<and> like rest ps)"
proof (induction lit arbitrary: s)
  case Nil
  then show ?case by simp
next
  case (Cons a lit)
  then show ?case
    by (cases s) (auto simp: like_special_def)
qed

lemma like_percent:
  "like s (CHR ''%'' # ps) = (\<exists>pre rest. s = pre @ rest \<and> like rest ps)"
proof (induction s)
  case Nil
  then show ?case by simp
next
  case (Cons c s)
  then show ?case
    by (auto simp: Cons_eq_append_conv)
qed

lemma like_percent_only: "like s [CHR ''%'']"
proof -
  have "s = s @ [] \<and> like [] []" by simp
  then show ?thesis unfolding like_percent by blast
qed

lemma like_contains:
  assumes "\<forall>c \<in> set lit. \<not> like_special c"
  shows "like s (CHR ''%'' # lit @ [CHR ''%'']) = sublist lit s"
proof -
  have "like s (CHR ''%'' # lit @ [CHR ''%'']) =
      (\<exists>pre rest. s = pre @ rest \<and> like rest (lit @ [CHR ''%'']))"
    by (rule like_percent)
  also have "\<dots> = (\<exists>pre rest. s = pre @ rest \<and> (\<exists>post. rest = lit @ post))"
    by (simp add: like_literal [OF assms] like_percent_only)
  also have "\<dots> = (\<exists>pre post. s = pre @ lit @ post)"
    by blast
  also have "\<dots> = sublist lit s"
    by (simp add: sublist_def)
  finally show ?thesis .
qed

text \<open>
  The ASCII folding neither makes nor removes a wildcard or a backslash.
\<close>

lemma ascii_lower_char_special: "like_special (ascii_lower_char c) = like_special c"
proof (cases "65 \<le> (of_char c :: nat) \<and> (of_char c :: nat) \<le> 90")
  case True
  then have n: "(of_char (ascii_lower_char c) :: nat) = of_char c + 32"
    by (simp add: ascii_lower_char_def Let_def)
  have "\<not> like_special c"
    using True by (auto simp: like_special_def)
  moreover have "\<not> like_special (ascii_lower_char c)"
    using True n by (auto simp: like_special_def)
  ultimately show ?thesis by simp
next
  case False
  then show ?thesis by (auto simp: ascii_lower_char_def Let_def)
qed

lemma ascii_lower_no_special:
  "(\<forall>c \<in> set (ascii_lower v). \<not> like_special c) = (\<forall>c \<in> set v. \<not> like_special c)"
  by (simp add: ascii_lower_def ascii_lower_char_special)

text \<open>
  With a non-empty search term whose folded form has no wildcard and no backslash,
  the search condition is containment of the folded term in the folded name.
\<close>

lemma where_list_contains:
  assumes "v \<noteq> []" and "\<forall>c \<in> set (toLowerCase v). \<not> like_special c"
  shows "where_list toLowerCase LOWER u \<lparr>search = Some v\<rparr> r =
       (userId_list r = id_user u \<and> sublist (toLowerCase v) (LOWER (name_list r)))"
  using assms(1) like_contains [OF assms(2), of "LOWER (name_list r)"]
  by (simp add: where_list_def truthy_string_def)

lemma where_item_contains:
  assumes "v \<noteq> []" and "\<forall>c \<in> set (toLowerCase v). \<not> like_special c"
  shows "where_item toLowerCase LOWER u \<lparr>search = Some v\<rparr> r =
       (userId_item r = id_user u \<and> sublist (toLowerCase v) (LOWER (name_item r)))"
  using assms(1) like_contains [OF assms(2), of "LOWER (name_item r)"]
  by (simp add: where_item_def truthy_string_def)

lemma where_list_contains_fun:
  "v \<noteq> [] \<Longrightarrow> \<forall>c \<in> set (toLowerCase v). \<not> like_special c \<Longrightarrow>
     where_list toLowerCase LOWER u \<lparr>search = Some v\<rparr> =
       (\<lambda>r. userId_list r = id_user u \<and> sublist (toLowerCase v) (LOWER (name_list r)))"
  by (rule ext) (rule where_list_contains)

lemma where_item_contains_fun:
  "v \<noteq> [] \<Longrightarrow> \<forall>c \<in> set (toLowerCase v). \<not> like_special c \<Longrightarrow>
     where_item toLowerCase LOWER u \<lparr>search = Some v\<rparr> =
       (\<lambda>r. userId_item r = id_user u \<and> sublist (toLowerCase v) (LOWER (name_item r)))"
  by (rule ext) (rule where_item_contains)

lemma where_list_no_search:
  "where_list toLowerCase LOWER u \<lparr>search = None\<rparr> = (\<lambda>r. userId_list r = id_user u)"
  "where_list toLowerCase LOWER u \<lparr>search = Some []\<rparr> = (\<lambda>r. userId_list r = id_user u)"
  by (rule ext, simp add: where_list_def truthy_string_def)+

lemma where_item_no_search:
  "where_item toLowerCase LOWER u \<lparr>search = None\<rparr> = (\<lambda>r. userId_item r = id_user u)"
  "where_item toLowerCase LOWER u \<lparr>search = Some []\<rparr> = (\<lambda>r. userId_item r = id_user u)"
  by (rule ext, simp add: where_item_def truthy_string_def)+

lemma concat_pages: "concat (map (\<lambda>k. take L (drop (k * L) xs)) [0..<n]) = take (n * L) xs"
proof (induction n)
  case 0
  then show ?case by simp
next
  case (Suc n)
  have "take (n * L + L) xs = take (n * L) xs @ take L (drop (n * L) xs)"
    by (rule take_add)
  with Suc show ?case by (simp add: add.commute)
qed

lemma concat_pages_all:
  "length xs \<le> n * L \<Longrightarrow> concat (map (\<lambda>k. take L (drop (k * L) xs)) [0..<n]) = xs"
  by (simp add: concat_pages)

lemma ListsService_findAll_owned:
  "set (ListsService_findAll toLowerCase LOWER tbl u p s) \<subseteq>
     {r \<in> set tbl. userId_list r = id_user u}"
  by (auto simp: ListsService_findAll_def where_list_def dest!: in_set_takeD in_set_dropD)

lemma ItemsService_findAll_owned:
  "set (ItemsService_findAll toLowerCase LOWER tbl u p s) \<subseteq>
     {r \<in> set tbl. userId_item r = id_user u}"
  by (auto simp: ItemsService_findAll_def where_item_def dest!: in_set_takeD in_set_dropD)

lemma ListsService_findAll_pages:
  "length (filter (where_list toLowerCase LOWER u s) tbl) \<le> n * L \<Longrightarrow>
     concat (map (\<lambda>k. ListsService_findAll toLowerCase LOWER tbl u \<lparr>offset = k * L, limit = L\<rparr> s)
              [0..<n]) =
       filter (where_list toLowerCase LOWER u s) tbl"
  by (simp add: ListsService_findAll_def concat_pages_all)

lemma ItemsService_findAll_pages:
  "length (filter (where_item toLowerCase LOWER u s) tbl) \<le> n * L \<Longrightarrow>
     concat (map (\<lambda>k. ItemsService_findAll toLowerCase LOWER tbl u \<lparr>offset = k * L, limit = L\<rparr> s)
              [0..<n]) =
       filter (where_item toLowerCase LOWER u s) tbl"
  by (simp add: ItemsService_findAll_def concat_pages_all)

text \<open>
  C6 as stated fails on a search term with a wildcard. The term \<open>_\<close> is not contained
  in the name \<open>a\<close>, yet the row named \<open>a\<close> is returned, because \<open>_\<close> in a \<open>LIKE\<close>
  pattern stands for any one character. Term and name are ASCII text.
\<close>

theorem findAll_wildcard_counterexample:
  "ListsService_findAll ascii_lower ascii_lower
      [\<lparr>id_list = ''00000000-0000-4000-8000-000000000001'', name_list = ''a'',
        userId_list = id_user carol\<rparr>] carol
      \<lparr>offset = 0, limit = 10\<rparr> \<lparr>search = Some ''_''\<rparr> =
     [\<lparr>id_list = ''00000000-0000-4000-8000-000000000001'', name_list = ''a'',
        userId_list = id_user carol\<rparr>]
   \<and> ItemsService_findAll ascii_lower ascii_lower
      [\<lparr>id_item = ''00000000-0000-4000-8000-00000000000a'', name_item = ''a'',
        quantityUnits = None, userId_item = id_user carol\<rparr>] carol
      \<lparr>offset = 0, limit = 10\<rparr> \<lparr>search = Some ''_''\<rparr> =
     [\<lparr>id_item = ''00000000-0000-4000-8000-00000000000a'', name_item = ''a'',
        quantityUnits = None, userId_item = id_user carol\<rparr>]
   \<and> \<not> sublist (ascii_lower ''_'') (ascii_lower ''a'')"
  by (simp add: ListsService_findAll_def ItemsService_findAll_def where_list_def where_item_def
      truthy_string_def ascii_lower_def ascii_lower_char_def sublist_Cons_right)

text \<open>
  C6, amended. For every owner, limit of at least one, offset and optional search
  term, \<open>findAll\<close> on lists and on items returns only rows of that owner: the rows whose
  name, folded by \<open>LOWER\<close>, matches the \<open>LIKE\<close> pattern made of the term, folded by
  \<open>toLowerCase\<close>, between two \<open>%\<close> (all the owner's rows when no term or the empty
  term is given), in table order, after dropping \<open>offset\<close> of them and keeping at most
  \<open>limit\<close>. When the folded term has no \<open>%\<close>, no \<open>_\<close> and no backslash, these are
  exactly the owner's rows whose folded name contains the folded term, which is
  substring match with letter case ignored as the two foldings ignore it. Of \<open>N\<close>
  matching rows it returns \<open>min limit (N - offset)\<close>, zero when the offset is beyond
  them, and the pages at offsets \<open>0, limit, 2 limit, \<dots>\<close> up to \<open>N\<close> put end to end
  are the matching rows, each once. This holds whatever the two foldings do.
\<close>

theorem findAll_owned_matching_page:
  assumes "1 \<le> limit p"
  shows "set (ListsService_findAll toLowerCase LOWER lt u p s) \<subseteq>
       {r \<in> set lt. userId_list r = id_user u}
   \<and> length (ListsService_findAll toLowerCase LOWER lt u p s) =
       min (limit p) (length (filter (where_list toLowerCase LOWER u s) lt) - offset p)
   \<and> (length (filter (where_list toLowerCase LOWER u s) lt) \<le> n * limit p \<longrightarrow>
       concat (map (\<lambda>k. ListsService_findAll toLowerCase LOWER lt u
                          \<lparr>offset = k * limit p, limit = limit p\<rparr> s)
                [0..<n]) = filter (where_list toLowerCase LOWER u s) lt)
   \<and> ListsService_findAll toLowerCase LOWER lt u p \<lparr>search = None\<rparr> =
       take (limit p) (drop (offset p) (filter (\<lambda>r. userId_list r = id_user u) lt))
   \<and> ListsService_findAll toLowerCase LOWER lt u p \<lparr>search = Some []\<rparr> =
       take (limit p) (drop (offset p) (filter (\<lambda>r. userId_list r = id_user u) lt))
   \<and> (v \<noteq> [] \<and> (\<forall>c \<in> set (toLowerCase v). \<not> like_special c) \<longrightarrow>
       ListsService_findAll toLowerCase LOWER lt u p \<lparr>search = Some v\<rparr> =
         take (limit p) (drop (offset p)
           (filter (\<lambda>r. userId_list r = id_user u \<and>
                        sublist (toLowerCase v) (LOWER (name_list r))) lt)))
   \<and> set (ItemsService_findAll toLowerCase LOWER it u p s) \<subseteq>
       {r \<in> set it. userId_item r = id_user u}
   \<and> length (ItemsService_findAll toLowerCase LOWER it u p s) =
       min (limit p) (length (filter (where_item toLowerCase LOWER u s) it) - offset p)
   \<and> (length (filter (where_item toLowerCase LOWER u s) it) \<le> n * limit p \<longrightarrow>
       concat (map (\<lambda>k. ItemsService_findAll toLowerCase LOWER it u
                          \<lparr>offset = k * limit p, limit = limit p\<rparr> s)
                [0..<n]) = filter (where_item toLowerCase LOWER u s) it)
   \<and> ItemsService_findAll toLowerCase LOWER it u p \<lparr>search = None\<rparr> =
       take (limit p) (drop (offset p) (filter (\<lambda>r. userId_item r = id_user u) it))
   \<and> ItemsService_findAll toLowerCase LOWER it u p \<lparr>search = Some []\<rparr> =
       take (limit p) (drop (offset p) (filter (\<lambda>r. userId_item r = id_user u) it))
   \<and> (v \<noteq> [] \<and> (\<forall>c \<in> set (toLowerCase v). \<not> like_special c) \<longrightarrow>
       ItemsService_findAll toLowerCase LOWER it u p \<lparr>search = Some v\<rparr> =
         take (limit p) (drop (offset p)
           (filter (\<lambda>r. userId_item r = id_user u \<and>
                        sublist (toLowerCase v) (LOWER (name_item r))) it)))"
proof -
  have l2: "length (ListsService_findAll toLowerCase LOWER lt u p s) =
       min (limit p) (length (filter (where_list toLowerCase LOWER u s) lt) - offset p)"
    by (simp add: ListsService_findAll_def)
  have l4: "ListsService_findAll toLowerCase LOWER lt u p \<lparr>search = None\<rparr> =
       take (limit p) (drop (offset p) (filter (\<lambda>r. userId_list r = id_user u) lt))"
    by (simp add: ListsService_findAll_def where_list_no_search)
  have l4': "ListsService_findAll toLowerCase LOWER lt u p \<lparr>search = Some []\<rparr> =
       take (limit p) (drop (offset p) (filter (\<lambda>r. userId_list r = id_user u) lt))"
    by (simp add: ListsService_findAll_def where_list_no_search)
  have l5: "v \<noteq> [] \<and> (\<forall>c \<in> set (toLowerCase v). \<not> like_special c) \<longrightarrow>
       ListsService_findAll toLowerCase LOWER lt u p \<lparr>search = Some v\<rparr> =
         take (limit p) (drop (offset p)
           (filter (\<lambda>r. userId_list r = id_user u \<and>
                        sublist (toLowerCase v) (LOWER (name_list r))) lt))"
    by (simp add: ListsService_findAll_def where_list_contains_fun)
  have i2: "length (ItemsService_findAll toLowerCase LOWER it u p s) =
       min (limit p) (length (filter (where_item toLowerCase LOWER u s) it) - offset p)"
    by (simp add: ItemsService_findAll_def)
  have i4: "ItemsService_findAll toLowerCase LOWER it u p \<lparr>search = None\<rparr> =
       take (limit p) (drop (offset p) (filter (\<lambda>r. userId_item r = id_user u) it))"
    by (simp add: ItemsService_findAll_def where_item_no_search)
  have i4': "ItemsService_findAll toLowerCase LOWER it u p \<lparr>search = Some []\<rparr> =
       take (limit p) (drop (offset p) (filter (\<lambda>r. userId_item r = id_user u) it))"
    by (simp add: ItemsService_findAll_def where_item_no_search)
  have i5: "v \<noteq> [] \<and> (\<forall>c \<in> set (toLowerCase v). \<not> like_special c) \<longrightarrow>
       ItemsService_findAll toLowerCase LOWER it u p \<lparr>search = Some v\<rparr> =
         take (limit p) (drop (offset p)
           (filter (\<lambda>r. userId_item r = id_user u \<and>
                        sublist (toLowerCase v) (LOWER (name_item r))) it))"
    by (simp add: ItemsService_findAll_def where_item_contains_fun)
  from l2 l4 l4' l5 i2 i4 i4' i5
    ListsService_findAll_owned [of toLowerCase LOWER lt u p s]
    ItemsService_findAll_owned [of toLowerCase LOWER it u p s]
    ListsService_findAll_pages [of toLowerCase LOWER u s lt n "limit p"]
    ItemsService_findAll_pages [of toLowerCase LOWER u s it n "limit p"]
  show ?thesis by blast
qed

theorem findAll_owned_matching_page_witness:
  "ListsService_findAll ascii_lower ascii_lower example_lists carol \<lparr>offset = 0, limit = 2\<rparr>
      \<lparr>search = Some ''GR''\<rparr> =
     [\<lparr>id_list = ''00000000-0000-4000-8000-000000000001'', name_list = ''Groceries'',
       userId_list = ''cccccccc-cccc-4ccc-8ccc-cccccccccccc''\<rparr>,
      \<lparr>id_list = ''00000000-0000-4000-8000-000000000003'', name_list = ''Green tea'',
       userId_list = ''cccccccc-cccc-4ccc-8ccc-cccccccccccc''\<rparr>]
   \<and> ListsService_findAll ascii_lower ascii_lower example_lists carol \<lparr>offset = 2, limit = 2\<rparr>
        \<lparr>search = Some ''GR''\<rparr> =
     [\<lparr>id_list = ''00000000-0000-4000-8000-000000000004'', name_list = ''grOup trip'',
       userId_list = ''cccccccc-cccc-4ccc-8ccc-cccccccccccc''\<rparr>]
   \<and> ItemsService_findAll ascii_lower ascii_lower example_items carol \<lparr>offset = 0, limit = 2\<rparr>
      \<lparr>search = Some ''GR''\<rparr> =
     [\<lparr>id_item = ''00000000-0000-4000-8000-00000000000a'', name_item = ''Grapes'',
       quantityUnits = Some ''kg'', userId_item = ''cccccccc-cccc-4ccc-8ccc-cccccccccccc''\<rparr>]"
proof -
  have h0: "1 \<le> limit \<lparr>offset = 0, limit = 2\<rparr>" by simp
  have h2: "1 \<le> limit \<lparr>offset = 2, limit = 2\<rparr>" by simp
  have ns0: "\<forall>c \<in> set ''GR''. \<not> like_special c"
    by (simp add: like_special_def)
  have ns1: "''GR'' \<noteq> []" by simp
  have ns: "''GR'' \<noteq> [] \<and> (\<forall>c \<in> set (ascii_lower ''GR''). \<not> like_special c)"
    using ns0 ns1 ascii_lower_no_special [of "''GR''"] by blast
  have ml: "filter (\<lambda>r. userId_list r = id_user carol \<and>
                sublist (ascii_lower ''GR'') (ascii_lower (name_list r))) example_lists =
      [\<lparr>id_list = ''00000000-0000-4000-8000-000000000001'', name_list = ''Groceries'',
        userId_list = ''cccccccc-cccc-4ccc-8ccc-cccccccccccc''\<rparr>,
       \<lparr>id_list = ''00000000-0000-4000-8000-000000000003'', name_list = ''Green tea'',
        userId_list = ''cccccccc-cccc-4ccc-8ccc-cccccccccccc''\<rparr>,
       \<lparr>id_list = ''00000000-0000-4000-8000-000000000004'', name_list = ''grOup trip'',
        userId_list = ''cccccccc-cccc-4ccc-8ccc-cccccccccccc''\<rparr>]"
    by code_simp
  have mi: "filter (\<lambda>r. userId_item r = id_user carol \<and>
                sublist (ascii_lower ''GR'') (ascii_lower (name_item r))) example_items =
      [\<lparr>id_item = ''00000000-0000-4000-8000-00000000000a'', name_item = ''Grapes'',
        quantityUnits = Some ''kg'', userId_item = ''cccccccc-cccc-4ccc-8ccc-cccccccccccc''\<rparr>]"
    by code_simp
  note t0 = findAll_owned_matching_page [OF h0, where lt = example_lists and it = example_items
      and u = carol and v = "''GR''" and toLowerCase = ascii_lower and LOWER = ascii_lower]
  note t2 = findAll_owned_matching_page [OF h2, where lt = example_lists and it = example_items
      and u = carol and v = "''GR''" and toLowerCase = ascii_lower and LOWER = ascii_lower]
  from t0 ns have "ListsService_findAll ascii_lower ascii_lower example_lists carol
      \<lparr>offset = 0, limit = 2\<rparr> \<lparr>search = Some ''GR''\<rparr> =
      take (limit \<lparr>offset = 0, limit = 2\<rparr>) (drop (offset \<lparr>offset = 0, limit = 2\<rparr>)
        (filter (\<lambda>r. userId_list r = id_user carol \<and>
                sublist (ascii_lower ''GR'') (ascii_lower (name_list r))) example_lists))"
    by blast
  with ml have a: "ListsService_findAll ascii_lower ascii_lower example_lists carol
      \<lparr>offset = 0, limit = 2\<rparr> \<lparr>search = Some ''GR''\<rparr> =
     [\<lparr>id_list = ''00000000-0000-4000-8000-000000000001'', name_list = ''Groceries'',
       userId_list = ''cccccccc-cccc-4ccc-8ccc-cccccccccccc''\<rparr>,
      \<lparr>id_list = ''00000000-0000-4000-8000-000000000003'', name_list = ''Green tea'',
       userId_list = ''cccccccc-cccc-4ccc-8ccc-cccccccccccc''\<rparr>]"
    by simp
  from t2 ns have "ListsService_findAll ascii_lower ascii_lower example_lists carol
      \<lparr>offset = 2, limit = 2\<rparr> \<lparr>search = Some ''GR''\<rparr> =
      take (limit \<lparr>offset = 2, limit = 2\<rparr>) (drop (offset \<lparr>offset = 2, limit = 2\<rparr>)
        (filter (\<lambda>r. userId_list r = id_user carol \<and>
                sublist (ascii_lower ''GR'') (ascii_lower (name_list r))) example_lists))"
    by blast
  with ml have b: "ListsService_findAll ascii_lower ascii_lower example_lists carol
      \<lparr>offset = 2, limit = 2\<rparr> \<lparr>search = Some ''GR''\<rparr> =
     [\<lparr>id_list = ''00000000-0000-4000-8000-000000000004'', name_list = ''grOup trip'',
       userId_list = ''cccccccc-cccc-4ccc-8ccc-cccccccccccc''\<rparr>]"
    by simp
  from t0 ns have "ItemsService_findAll ascii_lower ascii_lower example_items carol
      \<lparr>offset = 0, limit = 2\<rparr> \<lparr>search = Some ''GR''\<rparr> =
      take (limit \<lparr>offset = 0, limit = 2\<rparr>) (drop (offset \<lparr>offset = 0, limit = 2\<rparr>)
        (filter (\<lambda>r. userId_item r = id_user carol \<and>
                sublist (ascii_lower ''GR'') (ascii_lower (name_item r))) example_items))"
    by blast
  with mi have c: "ItemsService_findAll ascii_lower ascii_lower example_items carol
      \<lparr>offset = 0, limit = 2\<rparr> \<lparr>search = Some ''GR''\<rparr> =
     [\<lparr>id_item = ''00000000-0000-4000-8000-00000000000a'', name_item = ''Grapes'',
       quantityUnits = Some ''kg'', userId_item = ''cccccccc-cccc-4ccc-8ccc-cccccccccccc''\<rparr>]"
    by simp
  from a b c show ?thesis by simp
qed

end
